theory Spec2Isabelle
  imports Main
begin

section \<open>Data model of docker.go\<close>

text \<open>
  The Go file declares five structs and a set of builder methods on \<^verbatim>\<open>*Container\<close>
  and \<^verbatim>\<open>*Docker\<close>. The embedding keeps the source's names and reads the Go types as
  follows.
  \<^item> \<^verbatim>\<open>int\<close> is \<open>int\<close>: the code only stores, compares and returns these numbers
    (no arithmetic), so no overflow can occur; every Go \<^verbatim>\<open>int\<close> is an \<open>int\<close>.
  \<^item> \<^verbatim>\<open>string\<close> is \<open>string\<close> (a list of bytes).
  \<^item> A slice \<^verbatim>\<open>[]T\<close> is either the nil slice or a slice holding a list of elements;
    \<^verbatim>\<open>[]T{}\<close> is the non-nil slice of no elements. \<^verbatim>\<open>len\<close>, \<^verbatim>\<open>range\<close> and
    \<^verbatim>\<open>append\<close> read a nil slice as having no elements; \<^verbatim>\<open>append\<close> of an element
    always gives a non-nil slice.
  \<^item> A pointer \<^verbatim>\<open>*T\<close> is \<open>T option\<close>, \<open>None\<close> being \<^verbatim>\<open>nil\<close>. The pointers stored
    by the methods of this file point at values nobody else holds (a fresh literal, a
    local variable, a parameter), so the pointee is kept inside the record.
  \<^item> A method with a pointer receiver that ends in \<^verbatim>\<open>return docker\<close> (or
    \<^verbatim>\<open>return container\<close>) is a function from the record the receiver points at before
    the call to the record it points at after the call; the pointer returned is the
    receiver, so that record is also what the returned value designates. The receiver
    is a record, that is, a non-nil pointer.
  \<^item> Dereferencing a nil pointer panics: a method that dereferences returns an
    \<open>option\<close>, \<open>None\<close> being the panic.
\<close>

datatype 'a slice = nil_slice | Slice "'a list"

fun elems :: "'a slice \<Rightarrow> 'a list" where
  "elems nil_slice = []"
| "elems (Slice xs) = xs"

definition len_slice :: "'a slice \<Rightarrow> int" where
  "len_slice s = int (length (elems s))"

definition append_slice :: "'a slice \<Rightarrow> 'a \<Rightarrow> 'a slice" where
  "append_slice s x = Slice (elems s @ [x])"

record PortMapping =
  ContainerPort :: int
  HostPort :: int
  ServicePort :: int
  Protocol :: string

record Parameters =
  Key :: string
  Value :: string

record Volume =
  ContainerPath :: string
  HostPath :: string
  Mode :: string

record Docker =
  ForcePullImage :: "bool option"
  Image :: string
  Network :: string
  Parameters :: "Parameters slice option"
  PortMappings :: "PortMapping slice option"
  Privileged :: "bool option"

record Container =
  Type :: string
  Docker :: "Docker option"
  Volumes :: "Volume slice option"

text \<open>The zero values \<^verbatim>\<open>Docker{}\<close> and \<^verbatim>\<open>Container{}\<close>.\<close>

definition zero_Docker :: Docker where
  "zero_Docker = \<lparr>ForcePullImage = None, Image = [], Network = [], Parameters = None,
     PortMappings = None, Privileged = None\<rparr>"

definition zero_Container :: Container where
  "zero_Container = \<lparr>Type = [], Docker = None, Volumes = None\<rparr>"

text \<open>
  An \<^verbatim>\<open>error\<close> made by \<^verbatim>\<open>errors.New\<close>, or by \<^verbatim>\<open>fmt.Errorf\<close> on a format
  without verbs, is a value that carries its message and nothing else.
\<close>

datatype error = errorString string

definition NoPortMappings :: error where
  "NoPortMappings = errorString ''The docker does not contain any port mappings to search''"

definition PortNotFound :: error where
  "PortNotFound =
     errorString ''The container port required was not found in the container port mappings''"

section \<open>Methods of Container\<close>

definition EmptyVolumes :: "Container \<Rightarrow> Container" where
  "EmptyVolumes container = container\<lparr>Volumes := Some (Slice [])\<rparr>"

definition Volume :: "string \<Rightarrow> string \<Rightarrow> string \<Rightarrow> Container \<Rightarrow> Container option" where
  "Volume hostPath containerPath mode container =
     (let container1 = (if Volumes container = None then EmptyVolumes container else container)
      in case Volumes container1 of
           None \<Rightarrow> None
         | Some volumes \<Rightarrow>
             Some (container1\<lparr>Volumes := Some (append_slice volumes
               \<lparr>ContainerPath = containerPath, HostPath = hostPath, Mode = mode\<rparr>)\<rparr>))"

definition NewDockerContainer :: Container where
  "NewDockerContainer = zero_Container\<lparr>Type := ''DOCKER'', Docker := Some zero_Docker\<rparr>"

section \<open>Methods of Docker\<close>

definition SetForcePullImage :: "bool \<Rightarrow> Docker \<Rightarrow> Docker" where
  "SetForcePullImage forcePull docker = docker\<lparr>ForcePullImage := Some forcePull\<rparr>"

definition SetPrivileged :: "bool \<Rightarrow> Docker \<Rightarrow> Docker" where
  "SetPrivileged priv docker = docker\<lparr>Privileged := Some priv\<rparr>"

definition Container :: "string \<Rightarrow> Docker \<Rightarrow> Docker" where
  "Container image' docker = docker\<lparr>Image := image'\<rparr>"

definition Bridged :: "Docker \<Rightarrow> Docker" where
  "Bridged docker = docker\<lparr>Network := ''HOST''\<rparr>"

definition EmptyPortMappings :: "Docker \<Rightarrow> Docker" where
  "EmptyPortMappings docker = docker\<lparr>PortMappings := Some (Slice [])\<rparr>"

definition ExposePort :: "int \<Rightarrow> int \<Rightarrow> int \<Rightarrow> string \<Rightarrow> Docker \<Rightarrow> Docker option" where
  "ExposePort containerPort hostPort servicePort protocol docker =
     (let docker1 = (if PortMappings docker = None then EmptyPortMappings docker else docker)
      in case PortMappings docker1 of
           None \<Rightarrow> None
         | Some portMappings \<Rightarrow>
             Some (docker1\<lparr>PortMappings := Some (append_slice portMappings
               \<lparr>ContainerPort = containerPort, HostPort = hostPort,
                ServicePort = servicePort, Protocol = protocol\<rparr>)\<rparr>))"

fun Expose :: "int list \<Rightarrow> Docker \<Rightarrow> Docker option" where
  "Expose [] docker = Some docker"
| "Expose (port # ports) docker =
     (case ExposePort port 0 0 ''tcp'' docker of
        None \<Rightarrow> None
      | Some docker1 \<Rightarrow> Expose ports docker1)"

fun ExposeUDP :: "int list \<Rightarrow> Docker \<Rightarrow> Docker option" where
  "ExposeUDP [] docker = Some docker"
| "ExposeUDP (port # ports) docker =
     (case ExposePort port 0 0 ''udp'' docker of
        None \<Rightarrow> None
      | Some docker1 \<Rightarrow> ExposeUDP ports docker1)"

definition EmptyParameters :: "Docker \<Rightarrow> Docker" where
  "EmptyParameters docker = docker\<lparr>Parameters := Some (Slice [])\<rparr>"

definition AddParameter :: "string \<Rightarrow> string \<Rightarrow> Docker \<Rightarrow> Docker option" where
  "AddParameter key val docker =
     (let docker1 = (if Parameters docker = None then EmptyParameters docker else docker)
      in case Parameters docker1 of
           None \<Rightarrow> None
         | Some parameters \<Rightarrow>
             Some (docker1\<lparr>Parameters := Some (append_slice parameters
               \<lparr>Key = key, Value = val\<rparr>)\<rparr>))"

text \<open>
  The \<^verbatim>\<open>range\<close> loop of \<^verbatim>\<open>ServicePortIndex\<close>: \<open>index\<close> is the position of the head
  of the remaining entries; falling off the end is the statement after the loop.
\<close>

fun ServicePortIndex_range :: "int \<Rightarrow> int \<Rightarrow> PortMapping list \<Rightarrow> int \<times> error option" where
  "ServicePortIndex_range port index [] = (0, Some PortNotFound)"
| "ServicePortIndex_range port index (containerPort # rest) =
     (if ContainerPort containerPort = port then (index, None)
      else ServicePortIndex_range port (index + 1) rest)"

definition ServicePortIndex :: "int \<Rightarrow> Docker \<Rightarrow> int \<times> error option" where
  "ServicePortIndex port docker =
     (case PortMappings docker of
        None \<Rightarrow> (0, Some NoPortMappings)
      | Some portMappings \<Rightarrow>
          if len_slice portMappings = 0 then (0, Some NoPortMappings)
          else ServicePortIndex_range port 0 (elems portMappings))"

text \<open>
  What a list field holds: the entries of the slice behind the pointer, none when the
  pointer is nil. The mappings that \<^verbatim>\<open>Expose\<close> and \<^verbatim>\<open>ExposeUDP\<close> hand to
  \<^verbatim>\<open>ExposePort\<close> for one port.
\<close>

definition entries :: "'a slice option \<Rightarrow> 'a list" where
  "entries p = (case p of None \<Rightarrow> [] | Some s \<Rightarrow> elems s)"

definition tcp_mapping :: "int \<Rightarrow> PortMapping" where
  "tcp_mapping port = \<lparr>ContainerPort = port, HostPort = 0, ServicePort = 0, Protocol = ''tcp''\<rparr>"

definition udp_mapping :: "int \<Rightarrow> PortMapping" where
  "udp_mapping port = \<lparr>ContainerPort = port, HostPort = 0, ServicePort = 0, Protocol = ''udp''\<rparr>"

section \<open>Sequences of calls\<close>

text \<open>
  A program that builds a Docker record is a sequence of calls of the methods above on
  one receiver; \<open>run_Docker\<close> performs them in order and stops at a panic. The calls
  that append are \<^verbatim>\<open>Expose\<close>, \<^verbatim>\<open>ExposeUDP\<close>, \<^verbatim>\<open>ExposePort\<close> and
  \<^verbatim>\<open>AddParameter\<close>; \<open>appended_PortMappings\<close> and \<open>appended_Parameters\<close> list the
  entries a call is asked to append. The same for a Container, whose only appending
  method is \<^verbatim>\<open>Volume\<close>.
\<close>

datatype docker_call =
    CallSetForcePullImage bool
  | CallSetPrivileged bool
  | CallContainer string
  | CallBridged
  | CallExpose "int list"
  | CallExposeUDP "int list"
  | CallExposePort int int int string
  | CallEmptyPortMappings
  | CallAddParameter string string
  | CallEmptyParameters

fun call_Docker :: "docker_call \<Rightarrow> Docker \<Rightarrow> Docker option" where
  "call_Docker (CallSetForcePullImage forcePull) docker = Some (SetForcePullImage forcePull docker)"
| "call_Docker (CallSetPrivileged priv) docker = Some (SetPrivileged priv docker)"
| "call_Docker (CallContainer image') docker = Some (Container image' docker)"
| "call_Docker CallBridged docker = Some (Bridged docker)"
| "call_Docker (CallExpose ports) docker = Expose ports docker"
| "call_Docker (CallExposeUDP ports) docker = ExposeUDP ports docker"
| "call_Docker (CallExposePort containerPort hostPort servicePort protocol) docker =
     ExposePort containerPort hostPort servicePort protocol docker"
| "call_Docker CallEmptyPortMappings docker = Some (EmptyPortMappings docker)"
| "call_Docker (CallAddParameter key val) docker = AddParameter key val docker"
| "call_Docker CallEmptyParameters docker = Some (EmptyParameters docker)"

fun run_Docker :: "docker_call list \<Rightarrow> Docker \<Rightarrow> Docker option" where
  "run_Docker [] docker = Some docker"
| "run_Docker (c # cs) docker =
     (case call_Docker c docker of
        None \<Rightarrow> None
      | Some docker1 \<Rightarrow> run_Docker cs docker1)"

fun is_append_Docker :: "docker_call \<Rightarrow> bool" where
  "is_append_Docker (CallExpose ports) = True"
| "is_append_Docker (CallExposeUDP ports) = True"
| "is_append_Docker (CallExposePort containerPort hostPort servicePort protocol) = True"
| "is_append_Docker (CallAddParameter key val) = True"
| "is_append_Docker _ = False"

fun appended_PortMappings :: "docker_call \<Rightarrow> PortMapping list" where
  "appended_PortMappings (CallExpose ports) = map tcp_mapping ports"
| "appended_PortMappings (CallExposeUDP ports) = map udp_mapping ports"
| "appended_PortMappings (CallExposePort containerPort hostPort servicePort protocol) =
     [\<lparr>ContainerPort = containerPort, HostPort = hostPort,
       ServicePort = servicePort, Protocol = protocol\<rparr>]"
| "appended_PortMappings _ = []"

fun appended_Parameters :: "docker_call \<Rightarrow> Parameters list" where
  "appended_Parameters (CallAddParameter key val) = [\<lparr>Key = key, Value = val\<rparr>]"
| "appended_Parameters _ = []"

datatype container_call =
    CallVolume string string string
  | CallEmptyVolumes

fun call_Container :: "container_call \<Rightarrow> Container \<Rightarrow> Container option" where
  "call_Container (CallVolume hostPath containerPath mode) container =
     Volume hostPath containerPath mode container"
| "call_Container CallEmptyVolumes container = Some (EmptyVolumes container)"

fun run_Container :: "container_call list \<Rightarrow> Container \<Rightarrow> Container option" where
  "run_Container [] container = Some container"
| "run_Container (c # cs) container =
     (case call_Container c container of
        None \<Rightarrow> None
      | Some container1 \<Rightarrow> run_Container cs container1)"

fun is_append_Container :: "container_call \<Rightarrow> bool" where
  "is_append_Container (CallVolume hostPath containerPath mode) = True"
| "is_append_Container CallEmptyVolumes = False"

fun appended_Volumes :: "container_call \<Rightarrow> Volume list" where
  "appended_Volumes (CallVolume hostPath containerPath mode) =
     [\<lparr>ContainerPath = containerPath, HostPath = hostPath, Mode = mode\<rparr>]"
| "appended_Volumes CallEmptyVolumes = []"

section \<open>JSON encoding\<close>

text \<open>
  The records are encoded by \<^verbatim>\<open>json.Marshal\<close> of Go's standard library, driven by the
  struct tags of the source. The definitions below apply the encoder's documented rules to
  those tags: a struct is an object with one member per field, in declaration order, under
  the name in the tag; a field tagged \<^verbatim>\<open>omitempty\<close> is left out when it is the empty
  string, the number 0 or a nil pointer; a non-nil pointer is encoded as what it points
  at; a nil slice is \<^verbatim>\<open>null\<close> and any other slice an array. The result is the JSON
  value, before it is printed as text.
\<close>

datatype json =
    JNull
  | JBool bool
  | JNumber int
  | JString string
  | JArray "json list"
  | JObject "(string \<times> json) list"

definition omitempty_string :: "string \<Rightarrow> string \<Rightarrow> (string \<times> json) list" where
  "omitempty_string name s = (if s = [] then [] else [(name, JString s)])"

definition omitempty_int :: "string \<Rightarrow> int \<Rightarrow> (string \<times> json) list" where
  "omitempty_int name n = (if n = 0 then [] else [(name, JNumber n)])"

definition omitempty_pointer :: "string \<Rightarrow> ('a \<Rightarrow> json) \<Rightarrow> 'a option \<Rightarrow> (string \<times> json) list" where
  "omitempty_pointer name enc p = (case p of None \<Rightarrow> [] | Some v \<Rightarrow> [(name, enc v)])"

definition marshal_slice :: "('a \<Rightarrow> json) \<Rightarrow> 'a slice \<Rightarrow> json" where
  "marshal_slice enc s = (case s of nil_slice \<Rightarrow> JNull | Slice xs \<Rightarrow> JArray (map enc xs))"

definition marshal_PortMapping :: "PortMapping \<Rightarrow> json" where
  "marshal_PortMapping m = JObject
     (omitempty_int ''containerPort'' (ContainerPort m) @
      [(''hostPort'', JNumber (HostPort m))] @
      omitempty_int ''servicePort'' (ServicePort m) @
      [(''protocol'', JString (Protocol m))])"

definition marshal_Parameters :: "Parameters \<Rightarrow> json" where
  "marshal_Parameters p = JObject
     (omitempty_string ''key'' (Key p) @
      omitempty_string ''value'' (Value p))"

definition marshal_Volume :: "Volume \<Rightarrow> json" where
  "marshal_Volume v = JObject
     (omitempty_string ''containerPath'' (ContainerPath v) @
      omitempty_string ''hostPath'' (HostPath v) @
      omitempty_string ''mode'' (Mode v))"

definition marshal_Docker :: "Docker \<Rightarrow> json" where
  "marshal_Docker d = JObject
     (omitempty_pointer ''forcePullImage'' JBool (ForcePullImage d) @
      omitempty_string ''image'' (Image d) @
      omitempty_string ''network'' (Network d) @
      omitempty_pointer ''parameters'' (marshal_slice marshal_Parameters) (Parameters d) @
      omitempty_pointer ''portMappings'' (marshal_slice marshal_PortMapping) (PortMappings d) @
      omitempty_pointer ''privileged'' JBool (Privileged d))"

definition marshal_Container :: "Container \<Rightarrow> json" where
  "marshal_Container c = JObject
     (omitempty_string ''type'' (Type c) @
      omitempty_pointer ''docker'' marshal_Docker (Docker c) @
      omitempty_pointer ''volumes'' (marshal_slice marshal_Volume) (Volumes c))"

definition members :: "json \<Rightarrow> (string \<times> json) list" where
  "members j = (case j of JObject kvs \<Rightarrow> kvs | _ \<Rightarrow> [])"

definition member_names :: "json \<Rightarrow> string list" where
  "member_names j = map fst (members j)"

definition lookup_member :: "string \<Rightarrow> json \<Rightarrow> json option" where
  "lookup_member name j = map_of (members j) name"

section \<open>The port lookup\<close>

lemma entries_simps [simp]: "entries None = []" "entries (Some s) = elems s"
  by (simp_all add: entries_def)

lemma range_found:
  "snd (ServicePortIndex_range port i xs) = None \<longleftrightarrow> port \<in> ContainerPort ` set xs"
  by (induction xs arbitrary: i) auto

lemma range_not_found:
  "snd (ServicePortIndex_range port i xs) = Some e \<longleftrightarrow>
     e = PortNotFound \<and> port \<notin> ContainerPort ` set xs"
  by (induction xs arbitrary: i) auto

lemma range_first:
  "port \<in> ContainerPort ` set xs \<Longrightarrow>
   \<exists>k. ServicePortIndex_range port i xs = (i + int k, None) \<and> k < length xs \<and>
       ContainerPort (xs ! k) = port \<and> (\<forall>j<k. ContainerPort (xs ! j) \<noteq> port)"
proof (induction xs arbitrary: i)
  case Nil
  then show ?case by simp
next
  case (Cons m ms)
  show ?case
  proof (cases "ContainerPort m = port")
    case True
    then have "ServicePortIndex_range port i (m # ms) = (i + int 0, None) \<and>
       0 < length (m # ms) \<and> ContainerPort ((m # ms) ! 0) = port \<and>
       (\<forall>j<0. ContainerPort ((m # ms) ! j) \<noteq> port)" by simp
    then show ?thesis by blast
  next
    case False
    with Cons.prems have "port \<in> ContainerPort ` set ms" by auto
    from Cons.IH [OF this, of "i + 1"] obtain k where
      k: "ServicePortIndex_range port (i + 1) ms = (i + 1 + int k, None)" "k < length ms"
         "ContainerPort (ms ! k) = port" "\<forall>j<k. ContainerPort (ms ! j) \<noteq> port" by blast
    have "\<forall>j<Suc k. ContainerPort ((m # ms) ! j) \<noteq> port"
      using False k(4) by (auto simp: nth_Cons split: nat.splits)
    with False k have "ServicePortIndex_range port i (m # ms) = (i + int (Suc k), None) \<and>
       Suc k < length (m # ms) \<and> ContainerPort ((m # ms) ! Suc k) = port \<and>
       (\<forall>j<Suc k. ContainerPort ((m # ms) ! j) \<noteq> port)" by simp
    then show ?thesis by blast
  qed
qed

lemma errors_differ: "NoPortMappings \<noteq> PortNotFound"
  by (simp add: NoPortMappings_def PortNotFound_def)

text \<open>
  C1. For every Docker record and every port, \<^verbatim>\<open>ServicePortIndex\<close> returns the
  NoPortMappings error exactly when the portMappings pointer is nil or the list behind
  it has no entry; it returns the PortNotFound error exactly when the list has an entry
  and none has this containerPort; it returns no error exactly in the remaining case,
  when some entry has this containerPort. The two errors are different values (their
  messages differ).
\<close>

theorem ServicePortIndex_error_cases:
  "(snd (ServicePortIndex port docker) = Some NoPortMappings \<longleftrightarrow>
      PortMappings docker = None \<or> (\<exists>s. PortMappings docker = Some s \<and> elems s = []))
 \<and> (snd (ServicePortIndex port docker) = Some PortNotFound \<longleftrightarrow>
      (\<exists>s. PortMappings docker = Some s \<and> elems s \<noteq> [] \<and>
           port \<notin> ContainerPort ` set (elems s)))
 \<and> (snd (ServicePortIndex port docker) = None \<longleftrightarrow>
      (\<exists>s. PortMappings docker = Some s \<and> port \<in> ContainerPort ` set (elems s)))
 \<and> NoPortMappings \<noteq> PortNotFound"
  using errors_differ
  by (auto simp: ServicePortIndex_def len_slice_def range_found range_not_found
      split: option.splits)

theorem ServicePortIndex_error_cases_witness:
  "snd (ServicePortIndex 80 zero_Docker) = Some NoPortMappings
 \<and> snd (ServicePortIndex 9999 (zero_Docker\<lparr>PortMappings := Some (Slice
       [\<lparr>ContainerPort = 80, HostPort = 8080, ServicePort = 0, Protocol = ''tcp''\<rparr>])\<rparr>))
     = Some PortNotFound
 \<and> snd (ServicePortIndex 80 (zero_Docker\<lparr>PortMappings := Some (Slice
       [\<lparr>ContainerPort = 80, HostPort = 8080, ServicePort = 0, Protocol = ''tcp''\<rparr>])\<rparr>))
     = None"
  using ServicePortIndex_error_cases [of 80 zero_Docker]
    ServicePortIndex_error_cases [of 9999 "zero_Docker\<lparr>PortMappings := Some (Slice
       [\<lparr>ContainerPort = 80, HostPort = 8080, ServicePort = 0, Protocol = ''tcp''\<rparr>])\<rparr>"]
    ServicePortIndex_error_cases [of 80 "zero_Docker\<lparr>PortMappings := Some (Slice
       [\<lparr>ContainerPort = 80, HostPort = 8080, ServicePort = 0, Protocol = ''tcp''\<rparr>])\<rparr>"]
  by (simp add: zero_Docker_def)

text \<open>
  C2. When the portMappings list of a Docker record has an entry whose containerPort is
  the argument, \<^verbatim>\<open>ServicePortIndex\<close> returns, with no error, the zero-based position of
  the first such entry: the entry at the returned position has this containerPort and no
  entry before it has. On the zero Docker record, \<^verbatim>\<open>Expose(80, 443)\<close> followed by
  \<^verbatim>\<open>ServicePortIndex(443)\<close> returns 1 and no error.
\<close>

theorem ServicePortIndex_first_match:
  "(PortMappings docker = Some s \<and> port \<in> ContainerPort ` set (elems s) \<longrightarrow>
      (\<exists>k. ServicePortIndex port docker = (int k, None) \<and> k < length (elems s) \<and>
           ContainerPort (elems s ! k) = port \<and>
           (\<forall>j<k. ContainerPort (elems s ! j) \<noteq> port)))
 \<and> map_option (ServicePortIndex 443) (Expose [80, 443] zero_Docker) = Some (1, None)"
proof (intro conjI impI)
  assume a: "PortMappings docker = Some s \<and> port \<in> ContainerPort ` set (elems s)"
  then have ne: "elems s \<noteq> []" by auto
  from a range_first [of port "elems s" 0] obtain k where
    "ServicePortIndex_range port 0 (elems s) = (int k, None)" "k < length (elems s)"
    "ContainerPort (elems s ! k) = port" "\<forall>j<k. ContainerPort (elems s ! j) \<noteq> port"
    by auto
  with a ne show "\<exists>k. ServicePortIndex port docker = (int k, None) \<and> k < length (elems s) \<and>
           ContainerPort (elems s ! k) = port \<and>
           (\<forall>j<k. ContainerPort (elems s ! j) \<noteq> port)"
    by (auto simp: ServicePortIndex_def len_slice_def)
next
  show "map_option (ServicePortIndex 443) (Expose [80, 443] zero_Docker) = Some (1, None)"
    by (simp add: ExposePort_def EmptyPortMappings_def zero_Docker_def append_slice_def
        ServicePortIndex_def len_slice_def)
qed

theorem ServicePortIndex_first_match_witness:
  "PortMappings (zero_Docker\<lparr>PortMappings := Some (Slice
       [tcp_mapping 80, tcp_mapping 443, udp_mapping 443])\<rparr>)
     = Some (Slice [tcp_mapping 80, tcp_mapping 443, udp_mapping 443])
 \<and> 443 \<in> ContainerPort ` set (elems (Slice [tcp_mapping 80, tcp_mapping 443, udp_mapping 443]))
 \<and> ServicePortIndex 443 (zero_Docker\<lparr>PortMappings := Some (Slice
       [tcp_mapping 80, tcp_mapping 443, udp_mapping 443])\<rparr>) = (1, None)"
  using ServicePortIndex_first_match [of "zero_Docker\<lparr>PortMappings := Some (Slice
       [tcp_mapping 80, tcp_mapping 443, udp_mapping 443])\<rparr>"
       "Slice [tcp_mapping 80, tcp_mapping 443, udp_mapping 443]" 443]
  by (simp add: zero_Docker_def tcp_mapping_def udp_mapping_def ServicePortIndex_def
      len_slice_def)

section \<open>The append helpers\<close>

lemma ExposePort_eq:
  "ExposePort containerPort hostPort servicePort protocol docker =
     Some (docker\<lparr>PortMappings := Some (Slice (entries (PortMappings docker) @
       [\<lparr>ContainerPort = containerPort, HostPort = hostPort,
         ServicePort = servicePort, Protocol = protocol\<rparr>]))\<rparr>)"
  by (simp add: ExposePort_def EmptyPortMappings_def append_slice_def split: option.splits)

lemma AddParameter_eq:
  "AddParameter key val docker =
     Some (docker\<lparr>Parameters := Some (Slice (entries (Parameters docker) @
       [\<lparr>Key = key, Value = val\<rparr>]))\<rparr>)"
  by (simp add: AddParameter_def EmptyParameters_def append_slice_def split: option.splits)

lemma Volume_eq:
  "Volume hostPath containerPath mode container =
     Some (container\<lparr>Volumes := Some (Slice (entries (Volumes container) @
       [\<lparr>ContainerPath = containerPath, HostPath = hostPath, Mode = mode\<rparr>]))\<rparr>)"
  by (simp add: Volume_def EmptyVolumes_def append_slice_def split: option.splits)

lemma Expose_eq:
  "Expose ports docker =
     Some (if ports = [] then docker
           else docker\<lparr>PortMappings :=
             Some (Slice (entries (PortMappings docker) @ map tcp_mapping ports))\<rparr>)"
  by (induction ports arbitrary: docker) (simp_all add: ExposePort_eq tcp_mapping_def)

lemma ExposeUDP_eq:
  "ExposeUDP ports docker =
     Some (if ports = [] then docker
           else docker\<lparr>PortMappings :=
             Some (Slice (entries (PortMappings docker) @ map udp_mapping ports))\<rparr>)"
  by (induction ports arbitrary: docker) (simp_all add: ExposePort_eq udp_mapping_def)

lemma call_Docker_total: "\<exists>docker1. call_Docker c docker = Some docker1"
  by (cases c) (simp_all add: Expose_eq ExposeUDP_eq ExposePort_eq AddParameter_eq)

lemma call_Docker_append:
  assumes "is_append_Docker c" "call_Docker c docker = Some docker1"
  shows "entries (PortMappings docker1) = entries (PortMappings docker) @ appended_PortMappings c"
    and "entries (Parameters docker1) = entries (Parameters docker) @ appended_Parameters c"
  using assms
  by (cases c; auto simp: Expose_eq ExposeUDP_eq ExposePort_eq AddParameter_eq split: if_splits)+

lemma run_Docker_append:
  "list_all is_append_Docker cs \<Longrightarrow>
   \<exists>docker1. run_Docker cs docker = Some docker1 \<and>
     entries (PortMappings docker1) =
       entries (PortMappings docker) @ concat (map appended_PortMappings cs) \<and>
     entries (Parameters docker1) =
       entries (Parameters docker) @ concat (map appended_Parameters cs)"
proof (induction cs arbitrary: docker)
  case Nil
  then show ?case by simp
next
  case (Cons c cs)
  from call_Docker_total obtain d1 where d1: "call_Docker c docker = Some d1" by blast
  from Cons.prems have c: "is_append_Docker c" and cs: "list_all is_append_Docker cs" by simp_all
  from Cons.IH [OF cs, of d1] obtain d2 where d2: "run_Docker cs d1 = Some d2"
    "entries (PortMappings d2) = entries (PortMappings d1) @ concat (map appended_PortMappings cs)"
    "entries (Parameters d2) = entries (Parameters d1) @ concat (map appended_Parameters cs)"
    by blast
  with d1 call_Docker_append [OF c d1] show ?case by simp
qed

lemma call_Container_total: "\<exists>container1. call_Container c container = Some container1"
  by (cases c) (simp_all add: Volume_eq)

lemma run_Container_append:
  "list_all is_append_Container cs \<Longrightarrow>
   \<exists>container1. run_Container cs container = Some container1 \<and>
     entries (Volumes container1) =
       entries (Volumes container) @ concat (map appended_Volumes cs)"
proof (induction cs arbitrary: container)
  case Nil
  then show ?case by simp
next
  case (Cons c cs)
  from Cons.prems obtain h p m where c: "c = CallVolume h p m" and cs: "list_all is_append_Container cs"
    by (cases c) simp_all
  let ?c1 = "container\<lparr>Volumes := Some (Slice (entries (Volumes container) @
       [\<lparr>ContainerPath = p, HostPath = h, Mode = m\<rparr>]))\<rparr>"
  have c1: "call_Container c container = Some ?c1" by (simp add: c Volume_eq)
  from Cons.IH [OF cs, of ?c1] obtain c2 where "run_Container cs ?c1 = Some c2"
    "entries (Volumes c2) = entries (Volumes ?c1) @ concat (map appended_Volumes cs)" by blast
  with c1 c show ?case by simp
qed

text \<open>
  C3. From every starting record, a sequence of append calls runs to the end, and the list
  then holds the entries it held before (none when the field was unset) followed by the
  entries the calls appended, in call order; its length is the length before plus the
  number of appended entries. This holds for the port mappings under \<^verbatim>\<open>ExposePort\<close>,
  \<^verbatim>\<open>Expose\<close> and \<^verbatim>\<open>ExposeUDP\<close> (one append for each port given), for the parameters
  under \<^verbatim>\<open>AddParameter\<close>, also when the calls on the two lists are interleaved, and for
  the volumes under \<^verbatim>\<open>Volume\<close>, where the number of appends is the number of calls.
\<close>

theorem appends_keep_call_order:
  "(list_all is_append_Docker cs \<longrightarrow>
      (\<exists>docker1. run_Docker cs docker = Some docker1 \<and>
         entries (PortMappings docker1) =
           entries (PortMappings docker) @ concat (map appended_PortMappings cs) \<and>
         length (entries (PortMappings docker1)) =
           length (entries (PortMappings docker)) + length (concat (map appended_PortMappings cs)) \<and>
         entries (Parameters docker1) =
           entries (Parameters docker) @ concat (map appended_Parameters cs) \<and>
         length (entries (Parameters docker1)) =
           length (entries (Parameters docker)) + length (concat (map appended_Parameters cs))))
 \<and> (list_all is_append_Container ks \<longrightarrow>
      (\<exists>container1. run_Container ks container = Some container1 \<and>
         entries (Volumes container1) =
           entries (Volumes container) @ concat (map appended_Volumes ks) \<and>
         length (entries (Volumes container1)) = length (entries (Volumes container)) + length ks))"
proof (intro conjI impI)
  assume "list_all is_append_Docker cs"
  from run_Docker_append [OF this, of docker] obtain d1 where "run_Docker cs docker = Some d1"
    "entries (PortMappings d1) = entries (PortMappings docker) @ concat (map appended_PortMappings cs)"
    "entries (Parameters d1) = entries (Parameters docker) @ concat (map appended_Parameters cs)"
    by blast
  then show "\<exists>docker1. run_Docker cs docker = Some docker1 \<and>
         entries (PortMappings docker1) =
           entries (PortMappings docker) @ concat (map appended_PortMappings cs) \<and>
         length (entries (PortMappings docker1)) =
           length (entries (PortMappings docker)) + length (concat (map appended_PortMappings cs)) \<and>
         entries (Parameters docker1) =
           entries (Parameters docker) @ concat (map appended_Parameters cs) \<and>
         length (entries (Parameters docker1)) =
           length (entries (Parameters docker)) + length (concat (map appended_Parameters cs))"
    by simp
next
  assume a: "list_all is_append_Container ks"
  have len: "length (concat (map appended_Volumes ks)) = length ks" using a
    by (induction ks) (auto elim: is_append_Container.elims)
  from run_Container_append [OF a, of container] obtain c1 where
    "run_Container ks container = Some c1"
    "entries (Volumes c1) = entries (Volumes container) @ concat (map appended_Volumes ks)"
    by blast
  with len show "\<exists>container1. run_Container ks container = Some container1 \<and>
         entries (Volumes container1) =
           entries (Volumes container) @ concat (map appended_Volumes ks) \<and>
         length (entries (Volumes container1)) = length (entries (Volumes container)) + length ks"
    by simp
qed

theorem appends_keep_call_order_witness:
  "list_all is_append_Docker
     [CallExpose [80, 443], CallAddParameter ''net'' ''host'', CallExposePort 53 5353 0 ''udp'']
 \<and> list_all is_append_Container
     [CallVolume ''/host'' ''/container'' ''RW'', CallVolume ''/etc'' ''/conf'' ''RO'']
 \<and> (\<exists>docker1.
       run_Docker
         [CallExpose [80, 443], CallAddParameter ''net'' ''host'', CallExposePort 53 5353 0 ''udp'']
         (zero_Docker\<lparr>PortMappings := Some (Slice [udp_mapping 1])\<rparr>) = Some docker1 \<and>
       entries (PortMappings docker1) =
         [udp_mapping 1, tcp_mapping 80, tcp_mapping 443,
          \<lparr>ContainerPort = 53, HostPort = 5353, ServicePort = 0, Protocol = ''udp''\<rparr>] \<and>
       length (entries (PortMappings docker1)) = 1 + 3 \<and>
       entries (Parameters docker1) = [\<lparr>Key = ''net'', Value = ''host''\<rparr>] \<and>
       length (entries (Parameters docker1)) = 0 + 1)
 \<and> (\<exists>container1.
       run_Container
         [CallVolume ''/host'' ''/container'' ''RW'', CallVolume ''/etc'' ''/conf'' ''RO'']
         NewDockerContainer = Some container1 \<and>
       entries (Volumes container1) =
         [\<lparr>ContainerPath = ''/container'', HostPath = ''/host'', Mode = ''RW''\<rparr>,
          \<lparr>ContainerPath = ''/conf'', HostPath = ''/etc'', Mode = ''RO''\<rparr>] \<and>
       length (entries (Volumes container1)) = 0 + 2)"
  using appends_keep_call_order [of
      "[CallExpose [80, 443], CallAddParameter ''net'' ''host'', CallExposePort 53 5353 0 ''udp'']"
      "zero_Docker\<lparr>PortMappings := Some (Slice [udp_mapping 1])\<rparr>"
      "[CallVolume ''/host'' ''/container'' ''RW'', CallVolume ''/etc'' ''/conf'' ''RO'']"
      NewDockerContainer]
  by (simp add: zero_Docker_def NewDockerContainer_def zero_Container_def ExposePort_def
      AddParameter_def Volume_def EmptyPortMappings_def EmptyParameters_def EmptyVolumes_def
      append_slice_def tcp_mapping_def udp_mapping_def)

text \<open>
  C4. Called while its list field is unset, each append helper (\<^verbatim>\<open>Volume\<close>,
  \<^verbatim>\<open>ExposePort\<close>, \<^verbatim>\<open>AddParameter\<close>) does what it does on the record whose list has
  first been set to the present empty list: afterwards the field is present and holds
  exactly the appended entry, and nothing else in the record has changed. The present
  empty list that is materialized on the way is not the unset field.
\<close>

theorem append_to_unset_materializes:
  "(Volumes container = None \<longrightarrow>
      Volume hostPath containerPath mode container =
        Some (container\<lparr>Volumes := Some (Slice
          [\<lparr>ContainerPath = containerPath, HostPath = hostPath, Mode = mode\<rparr>])\<rparr>) \<and>
      Volume hostPath containerPath mode container =
        Volume hostPath containerPath mode (EmptyVolumes container))
 \<and> (PortMappings docker = None \<longrightarrow>
      ExposePort containerPort hostPort servicePort protocol docker =
        Some (docker\<lparr>PortMappings := Some (Slice
          [\<lparr>ContainerPort = containerPort, HostPort = hostPort,
            ServicePort = servicePort, Protocol = protocol\<rparr>])\<rparr>) \<and>
      ExposePort containerPort hostPort servicePort protocol docker =
        ExposePort containerPort hostPort servicePort protocol (EmptyPortMappings docker))
 \<and> (Parameters docker = None \<longrightarrow>
      AddParameter key val docker =
        Some (docker\<lparr>Parameters := Some (Slice [\<lparr>Key = key, Value = val\<rparr>])\<rparr>) \<and>
      AddParameter key val docker = AddParameter key val (EmptyParameters docker))
 \<and> Volumes (EmptyVolumes container) \<noteq> None
 \<and> PortMappings (EmptyPortMappings docker) \<noteq> None
 \<and> Parameters (EmptyParameters docker) \<noteq> None"
  by (simp add: Volume_def ExposePort_def AddParameter_def EmptyVolumes_def
      EmptyPortMappings_def EmptyParameters_def append_slice_def)

theorem append_to_unset_materializes_witness:
  "Volumes NewDockerContainer = None
 \<and> PortMappings zero_Docker = None
 \<and> Parameters zero_Docker = None
 \<and> Volume ''/host'' ''/container'' ''RW'' NewDockerContainer =
      Some \<lparr>Type = ''DOCKER'', Docker = Some zero_Docker, Volumes = Some (Slice
        [\<lparr>ContainerPath = ''/container'', HostPath = ''/host'', Mode = ''RW''\<rparr>])\<rparr>
 \<and> ExposePort 80 8080 0 ''tcp'' zero_Docker =
      Some \<lparr>ForcePullImage = None, Image = '''', Network = '''', Parameters = None,
        PortMappings = Some (Slice
          [\<lparr>ContainerPort = 80, HostPort = 8080, ServicePort = 0, Protocol = ''tcp''\<rparr>]),
        Privileged = None\<rparr>
 \<and> AddParameter ''net'' ''host'' zero_Docker =
      Some \<lparr>ForcePullImage = None, Image = '''', Network = '''',
        Parameters = Some (Slice [\<lparr>Key = ''net'', Value = ''host''\<rparr>]),
        PortMappings = None, Privileged = None\<rparr>"
  using append_to_unset_materializes [of NewDockerContainer "''/host''" "''/container''" "''RW''"
      zero_Docker 80 8080 0 "''tcp''" "''net''" "''host''"]
  by (simp add: zero_Docker_def NewDockerContainer_def zero_Container_def)

section \<open>Clearing\<close>

lemma call_Docker_present:
  assumes "call_Docker c docker = Some docker1"
  shows "PortMappings docker \<noteq> None \<Longrightarrow> PortMappings docker1 \<noteq> None"
    and "Parameters docker \<noteq> None \<Longrightarrow> Parameters docker1 \<noteq> None"
  using assms
  by (cases c; auto simp: Expose_eq ExposeUDP_eq ExposePort_eq AddParameter_eq
      SetForcePullImage_def SetPrivileged_def Container_def Bridged_def
      EmptyPortMappings_def EmptyParameters_def split: if_splits)+

lemma run_Docker_present:
  "\<exists>docker1. run_Docker cs docker = Some docker1 \<and>
     (PortMappings docker \<noteq> None \<longrightarrow> PortMappings docker1 \<noteq> None) \<and>
     (Parameters docker \<noteq> None \<longrightarrow> Parameters docker1 \<noteq> None)"
proof (induction cs arbitrary: docker)
  case Nil
  then show ?case by simp
next
  case (Cons c cs)
  from call_Docker_total obtain d1 where d1: "call_Docker c docker = Some d1" by blast
  from Cons.IH [of d1] obtain d2 where "run_Docker cs d1 = Some d2"
    "PortMappings d1 \<noteq> None \<longrightarrow> PortMappings d2 \<noteq> None"
    "Parameters d1 \<noteq> None \<longrightarrow> Parameters d2 \<noteq> None" by blast
  with d1 call_Docker_present [OF d1] show ?case by simp
qed

lemma run_Container_present:
  "\<exists>container1. run_Container cs container = Some container1 \<and>
     (Volumes container \<noteq> None \<longrightarrow> Volumes container1 \<noteq> None)"
proof (induction cs arbitrary: container)
  case Nil
  then show ?case by simp
next
  case (Cons c cs)
  from call_Container_total obtain c1 where c1: "call_Container c container = Some c1" by blast
  then have p: "Volumes container \<noteq> None \<longrightarrow> Volumes c1 \<noteq> None"
    by (cases c) (auto simp: Volume_eq EmptyVolumes_def)
  from Cons.IH [of c1] obtain c2 where "run_Container cs c1 = Some c2"
    "Volumes c1 \<noteq> None \<longrightarrow> Volumes c2 \<noteq> None" by blast
  with c1 p show ?case by simp
qed

text \<open>
  C5. After \<^verbatim>\<open>EmptyVolumes\<close>, \<^verbatim>\<open>EmptyPortMappings\<close> or \<^verbatim>\<open>EmptyParameters\<close> the
  list field is present and empty, and after any further sequence of calls of the methods
  of the record (appends, clears and the setters, in any order) the field is still
  present: it never goes back to unset.
\<close>

theorem cleared_list_stays_present:
  "Volumes (EmptyVolumes container) = Some (Slice [])
 \<and> PortMappings (EmptyPortMappings docker) = Some (Slice [])
 \<and> Parameters (EmptyParameters docker) = Some (Slice [])
 \<and> (\<exists>container1. run_Container ks (EmptyVolumes container) = Some container1 \<and>
       Volumes container1 \<noteq> None)
 \<and> (\<exists>docker1. run_Docker cs (EmptyPortMappings docker) = Some docker1 \<and>
       PortMappings docker1 \<noteq> None)
 \<and> (\<exists>docker1. run_Docker cs (EmptyParameters docker) = Some docker1 \<and>
       Parameters docker1 \<noteq> None)"
proof -
  have a: "Volumes (EmptyVolumes container) = Some (Slice [])"
    by (simp add: EmptyVolumes_def)
  have b: "PortMappings (EmptyPortMappings docker) = Some (Slice [])"
    by (simp add: EmptyPortMappings_def)
  have c: "Parameters (EmptyParameters docker) = Some (Slice [])"
    by (simp add: EmptyParameters_def)
  from run_Container_present [of ks "EmptyVolumes container"] a
  have d: "\<exists>container1. run_Container ks (EmptyVolumes container) = Some container1 \<and>
       Volumes container1 \<noteq> None" by auto
  from run_Docker_present [of cs "EmptyPortMappings docker"] b
  have e: "\<exists>docker1. run_Docker cs (EmptyPortMappings docker) = Some docker1 \<and>
       PortMappings docker1 \<noteq> None" by auto
  from run_Docker_present [of cs "EmptyParameters docker"] c
  have f: "\<exists>docker1. run_Docker cs (EmptyParameters docker) = Some docker1 \<and>
       Parameters docker1 \<noteq> None" by auto
  from a b c d e f show ?thesis by blast
qed

theorem cleared_list_stays_present_witness:
  "(\<exists>container1.
      run_Container [CallVolume ''/host'' ''/container'' ''RW'', CallEmptyVolumes]
        (EmptyVolumes NewDockerContainer) = Some container1 \<and> Volumes container1 \<noteq> None)
 \<and> (\<exists>docker1.
      run_Docker [CallExpose [80], CallAddParameter ''net'' ''host'', CallEmptyPortMappings,
          CallEmptyParameters, CallBridged]
        (EmptyPortMappings zero_Docker) = Some docker1 \<and> PortMappings docker1 \<noteq> None)
 \<and> (\<exists>docker1.
      run_Docker [CallExpose [80], CallAddParameter ''net'' ''host'', CallEmptyPortMappings,
          CallEmptyParameters, CallBridged]
        (EmptyParameters zero_Docker) = Some docker1 \<and> Parameters docker1 \<noteq> None)"
  using cleared_list_stays_present [of NewDockerContainer zero_Docker
      "[CallVolume ''/host'' ''/container'' ''RW'', CallEmptyVolumes]"
      "[CallExpose [80], CallAddParameter ''net'' ''host'', CallEmptyPortMappings,
          CallEmptyParameters, CallBridged]"]
  by simp

section \<open>Encoding of unset fields\<close>

lemma names_omitempty_string:
  "set (map fst (omitempty_string name s)) = (if s = [] then {} else {name})"
  by (simp add: omitempty_string_def)

lemma names_omitempty_pointer:
  "set (map fst (omitempty_pointer name enc p)) = (if p = None then {} else {name})"
  by (cases p) (simp_all add: omitempty_pointer_def)

lemma names_marshal_Container:
  "set (member_names (marshal_Container c)) =
     (if Type c = [] then {} else {''type''}) \<union>
     (if Docker c = None then {} else {''docker''}) \<union>
     (if Volumes c = None then {} else {''volumes''})"
  unfolding marshal_Container_def member_names_def members_def json.case map_append set_append
    names_omitempty_string names_omitempty_pointer
  by (simp only: Un_assoc)

lemma names_marshal_Docker:
  "set (member_names (marshal_Docker d)) =
     (if ForcePullImage d = None then {} else {''forcePullImage''}) \<union>
     (if Image d = [] then {} else {''image''}) \<union>
     (if Network d = [] then {} else {''network''}) \<union>
     (if Parameters d = None then {} else {''parameters''}) \<union>
     (if PortMappings d = None then {} else {''portMappings''}) \<union>
     (if Privileged d = None then {} else {''privileged''})"
  unfolding marshal_Docker_def member_names_def members_def json.case map_append set_append
    names_omitempty_string names_omitempty_pointer
  by (simp only: Un_assoc)

lemma docker_omitted:
  "Docker c = None \<longleftrightarrow> ''docker'' \<notin> set (member_names (marshal_Container c))"
  by (simp add: names_marshal_Container)

lemma volumes_omitted:
  "Volumes c = None \<longleftrightarrow> ''volumes'' \<notin> set (member_names (marshal_Container c))"
  by (simp add: names_marshal_Container)

lemma forcePullImage_omitted:
  "ForcePullImage d = None \<longleftrightarrow> ''forcePullImage'' \<notin> set (member_names (marshal_Docker d))"
  by (simp add: names_marshal_Docker)

lemma parameters_omitted:
  "Parameters d = None \<longleftrightarrow> ''parameters'' \<notin> set (member_names (marshal_Docker d))"
  by (simp add: names_marshal_Docker)

lemma portMappings_omitted:
  "PortMappings d = None \<longleftrightarrow> ''portMappings'' \<notin> set (member_names (marshal_Docker d))"
  by (simp add: names_marshal_Docker)

lemma privileged_omitted:
  "Privileged d = None \<longleftrightarrow> ''privileged'' \<notin> set (member_names (marshal_Docker d))"
  by (simp add: names_marshal_Docker)

lemma map_of_append_first:
  "map_of (xs @ ys) k = (case map_of xs k of None \<Rightarrow> map_of ys k | Some v \<Rightarrow> Some v)"
  by (induction xs) auto

lemma map_of_omitempty_string:
  "name \<noteq> k \<Longrightarrow> map_of (omitempty_string name s) k = None"
  by (simp add: omitempty_string_def)

lemma map_of_omitempty_pointer:
  "name \<noteq> k \<Longrightarrow> map_of (omitempty_pointer name enc p) k = None"
  by (simp add: omitempty_pointer_def split: option.splits)

lemma map_of_omitempty_pointer_Some:
  "map_of (omitempty_pointer name enc (Some v)) name = Some (enc v)"
  by (simp add: omitempty_pointer_def)

lemma cleared_volumes_array:
  "lookup_member ''volumes'' (marshal_Container (EmptyVolumes c)) = Some (JArray [])"
  by (simp add: lookup_member_def members_def marshal_Container_def EmptyVolumes_def
      map_of_append_first map_of_omitempty_string map_of_omitempty_pointer
      map_of_omitempty_pointer_Some marshal_slice_def del: map_of_append)

lemma cleared_portMappings_array:
  "lookup_member ''portMappings'' (marshal_Docker (EmptyPortMappings d)) = Some (JArray [])"
  by (simp add: lookup_member_def members_def marshal_Docker_def EmptyPortMappings_def
      map_of_append_first map_of_omitempty_string map_of_omitempty_pointer
      map_of_omitempty_pointer_Some marshal_slice_def del: map_of_append)

lemma cleared_parameters_array:
  "lookup_member ''parameters'' (marshal_Docker (EmptyParameters d)) = Some (JArray [])"
  by (simp add: lookup_member_def members_def marshal_Docker_def EmptyParameters_def
      map_of_append_first map_of_omitempty_string map_of_omitempty_pointer
      map_of_omitempty_pointer_Some marshal_slice_def del: map_of_append)

text \<open>
  C6. In the encoding of any Container or Docker value, each of the optional fields
  docker, volumes, forcePullImage, parameters, portMappings and privileged has a member
  in the object exactly when the field is set; an unset field has no member at all, so
  neither \<^verbatim>\<open>null\<close> nor a default stands for it. A list that has been cleared is
  encoded as a member whose value is the empty array.
\<close>

theorem unset_fields_omitted:
  "(Docker c = None \<longleftrightarrow> ''docker'' \<notin> set (member_names (marshal_Container c)))
 \<and> (Volumes c = None \<longleftrightarrow> ''volumes'' \<notin> set (member_names (marshal_Container c)))
 \<and> (ForcePullImage d = None \<longleftrightarrow> ''forcePullImage'' \<notin> set (member_names (marshal_Docker d)))
 \<and> (Parameters d = None \<longleftrightarrow> ''parameters'' \<notin> set (member_names (marshal_Docker d)))
 \<and> (PortMappings d = None \<longleftrightarrow> ''portMappings'' \<notin> set (member_names (marshal_Docker d)))
 \<and> (Privileged d = None \<longleftrightarrow> ''privileged'' \<notin> set (member_names (marshal_Docker d)))
 \<and> lookup_member ''volumes'' (marshal_Container (EmptyVolumes c)) = Some (JArray [])
 \<and> lookup_member ''portMappings'' (marshal_Docker (EmptyPortMappings d)) = Some (JArray [])
 \<and> lookup_member ''parameters'' (marshal_Docker (EmptyParameters d)) = Some (JArray [])"
  using docker_omitted volumes_omitted forcePullImage_omitted parameters_omitted
    portMappings_omitted privileged_omitted cleared_volumes_array cleared_portMappings_array
    cleared_parameters_array
  by blast

theorem unset_fields_omitted_witness:
  "''docker'' \<notin> set (member_names (marshal_Container zero_Container))
 \<and> ''volumes'' \<notin> set (member_names (marshal_Container NewDockerContainer))
 \<and> ''docker'' \<in> set (member_names (marshal_Container NewDockerContainer))
 \<and> ''forcePullImage'' \<notin> set (member_names (marshal_Docker zero_Docker))
 \<and> ''parameters'' \<notin> set (member_names (marshal_Docker zero_Docker))
 \<and> ''portMappings'' \<notin> set (member_names (marshal_Docker zero_Docker))
 \<and> ''privileged'' \<notin> set (member_names (marshal_Docker zero_Docker))
 \<and> lookup_member ''volumes'' (marshal_Container (EmptyVolumes NewDockerContainer)) =
      Some (JArray [])"
  using unset_fields_omitted [of zero_Container zero_Docker]
    unset_fields_omitted [of NewDockerContainer zero_Docker]
  by (simp add: zero_Docker_def NewDockerContainer_def zero_Container_def)

section \<open>The constructor and the remaining methods\<close>

text \<open>
  C7. \<^verbatim>\<open>NewDockerContainer\<close> returns a Container whose type is \<^verbatim>\<open>"DOCKER"\<close>, whose
  nested Docker record is present with every field unset or zero, and whose volumes are
  unset.
\<close>

theorem NewDockerContainer_fields:
  "Type NewDockerContainer = ''DOCKER''
 \<and> Docker NewDockerContainer =
      Some \<lparr>ForcePullImage = None, Image = '''', Network = '''', Parameters = None,
            PortMappings = None, Privileged = None\<rparr>
 \<and> Docker NewDockerContainer \<noteq> None
 \<and> Volumes NewDockerContainer = None"
  by (simp add: NewDockerContainer_def zero_Container_def zero_Docker_def)

theorem NewDockerContainer_fields_witness:
  "Type NewDockerContainer \<noteq> '''' \<and> Docker NewDockerContainer \<noteq> None"
  using NewDockerContainer_fields by simp

text \<open>
  C8. For every Docker record and every list of ports, \<^verbatim>\<open>Expose\<close> returns normally,
  and the port mappings of the record are then the ones it had followed, for each port in
  argument order, by one mapping with that containerPort, hostPort 0, servicePort 0 and
  protocol \<^verbatim>\<open>"tcp"\<close>; no other field of the record has changed. The same holds for
  \<^verbatim>\<open>ExposeUDP\<close> with protocol \<^verbatim>\<open>"udp"\<close>.
\<close>

theorem Expose_appends_each_port:
  "(\<exists>docker1. Expose ports docker = Some docker1 \<and>
      entries (PortMappings docker1) =
        entries (PortMappings docker) @
        map (\<lambda>port. \<lparr>ContainerPort = port, HostPort = 0, ServicePort = 0,
                      Protocol = ''tcp''\<rparr>) ports \<and>
      docker1\<lparr>PortMappings := PortMappings docker\<rparr> = docker)
 \<and> (\<exists>docker1. ExposeUDP ports docker = Some docker1 \<and>
      entries (PortMappings docker1) =
        entries (PortMappings docker) @
        map (\<lambda>port. \<lparr>ContainerPort = port, HostPort = 0, ServicePort = 0,
                      Protocol = ''udp''\<rparr>) ports \<and>
      docker1\<lparr>PortMappings := PortMappings docker\<rparr> = docker)"
  by (simp add: Expose_eq ExposeUDP_eq tcp_mapping_def udp_mapping_def)

theorem Expose_appends_each_port_witness:
  "(\<exists>docker1. Expose [80, 443] (EmptyPortMappings zero_Docker) = Some docker1 \<and>
      entries (PortMappings docker1) =
        [\<lparr>ContainerPort = 80, HostPort = 0, ServicePort = 0, Protocol = ''tcp''\<rparr>,
         \<lparr>ContainerPort = 443, HostPort = 0, ServicePort = 0, Protocol = ''tcp''\<rparr>])
 \<and> (\<exists>docker1. ExposeUDP [53] (EmptyPortMappings zero_Docker) = Some docker1 \<and>
      entries (PortMappings docker1) =
        [\<lparr>ContainerPort = 53, HostPort = 0, ServicePort = 0, Protocol = ''udp''\<rparr>])"
proof -
  from Expose_appends_each_port [of "[80, 443]" "EmptyPortMappings zero_Docker"]
  have a: "\<exists>docker1. Expose [80, 443] (EmptyPortMappings zero_Docker) = Some docker1 \<and>
      entries (PortMappings docker1) =
        [\<lparr>ContainerPort = 80, HostPort = 0, ServicePort = 0, Protocol = ''tcp''\<rparr>,
         \<lparr>ContainerPort = 443, HostPort = 0, ServicePort = 0, Protocol = ''tcp''\<rparr>]"
    by (auto simp: EmptyPortMappings_def)
  from Expose_appends_each_port [of "[53]" "EmptyPortMappings zero_Docker"]
  have b: "\<exists>docker1. ExposeUDP [53] (EmptyPortMappings zero_Docker) = Some docker1 \<and>
      entries (PortMappings docker1) =
        [\<lparr>ContainerPort = 53, HostPort = 0, ServicePort = 0, Protocol = ''udp''\<rparr>]"
    by (auto simp: EmptyPortMappings_def)
  from a b show ?thesis by blast
qed

text \<open>
  C9. \<^verbatim>\<open>Bridged\<close> sets the network field to \<^verbatim>\<open>"HOST"\<close>, whatever the record held,
  and so never to a bridged-network token such as \<^verbatim>\<open>"BRIDGE"\<close>; every other field
  keeps its value, and the record returned is the receiver with this one field set.
\<close>

theorem Bridged_sets_HOST:
  "Network (Bridged docker) = ''HOST''
 \<and> Network (Bridged docker) \<noteq> ''BRIDGE''
 \<and> ForcePullImage (Bridged docker) = ForcePullImage docker
 \<and> Image (Bridged docker) = Image docker
 \<and> Parameters (Bridged docker) = Parameters docker
 \<and> PortMappings (Bridged docker) = PortMappings docker
 \<and> Privileged (Bridged docker) = Privileged docker
 \<and> Bridged docker = docker\<lparr>Network := ''HOST''\<rparr>"
  by (simp add: Bridged_def)

theorem Bridged_sets_HOST_witness:
  "Network (Bridged (zero_Docker\<lparr>Network := ''BRIDGE''\<rparr>)) = ''HOST''
 \<and> Image (Bridged (zero_Docker\<lparr>Network := ''BRIDGE''\<rparr>)) = ''''"
  using Bridged_sets_HOST [of "zero_Docker\<lparr>Network := ''BRIDGE''\<rparr>"]
  by (simp add: zero_Docker_def)

text \<open>
  C10. \<^verbatim>\<open>Expose\<close> and \<^verbatim>\<open>ExposeUDP\<close> called with no port leave the Docker record as
  it is; in particular unset port mappings stay unset. A call of \<^verbatim>\<open>ExposePort\<close>, in
  contrast, always leaves the port mappings present.
\<close>

theorem Expose_no_ports_unchanged:
  "Expose [] docker = Some docker
 \<and> ExposeUDP [] docker = Some docker
 \<and> (PortMappings docker = None \<longrightarrow>
      map_option PortMappings (Expose [] docker) = Some None \<and>
      map_option PortMappings (ExposeUDP [] docker) = Some None)
 \<and> (\<exists>docker1. ExposePort containerPort hostPort servicePort protocol docker = Some docker1 \<and>
      PortMappings docker1 \<noteq> None)"
  by (simp add: ExposePort_eq)

theorem Expose_no_ports_unchanged_witness:
  "PortMappings zero_Docker = None
 \<and> map_option PortMappings (Expose [] zero_Docker) = Some None
 \<and> map_option PortMappings (ExposeUDP [] zero_Docker) = Some None
 \<and> (\<exists>docker1. ExposePort 80 0 0 ''tcp'' zero_Docker = Some docker1 \<and>
      PortMappings docker1 \<noteq> None)"
  using Expose_no_ports_unchanged [of zero_Docker 80 0 0 "''tcp''"]
  by (simp add: zero_Docker_def)

end
